theory Spec2Isabelle
  imports Complex_Main "HOL-Library.AList"
begin

section \<open>Python values, exceptions and the status log\<close>

text \<open>
  Attribute values and tags are Python objects. Only strings, numbers and \<open>None\<close> occur
  in the code under study. Python floats are modelled as exact real numbers: rounding is
  outside this development.
\<close>

datatype pyval = PStr string | PNum real | PNone

datatype py_error =
    ValueError string
  | NotImplementedError string
  | KeyError string
  | AttributeError string
  | TypeError
  | AmbiguousSelection
  | TagNotFound string

text \<open>
  A status message is a category and a text. The text is kept as the pieces that the source
  concatenates: a literal, or \<open>str(v)\<close> of a Python value.
\<close>

datatype piece = Lit string | Str pyval

type_synonym status = "string \<times> piece list"

text \<open>
  Modelled from the spec: \<open>GCMtools.core.writer.write_status\<close> is not among the sources. The
  spec describes the logging surface as categorized status messages that are purely
  observational, so a call appends one entry to the log and does nothing else.
\<close>

definition write_status :: "string \<Rightarrow> piece list \<Rightarrow> status list \<Rightarrow> status list" where
  "write_status category text lg = lg @ [(category, text)]"

section \<open>Labelled arrays and datasets\<close>

text \<open>
  The array library is external. A variable has named dimensions with their lengths and a
  value at every index; an index assigns a position to every dimension name, and a variable
  is read only at the names of its own dimensions. A data array is a variable together
  with the coordinates it carries. A dataset holds one dictionary of variables, the names
  of those that are coordinates, and an attribute dictionary; the dictionaries keep
  insertion order. The data variables are the variables that are not coordinates.
\<close>

type_synonym index = "string \<Rightarrow> nat"

record variable =
  dims :: "(string \<times> nat) list"
  vals :: "index \<Rightarrow> real"

record dataarray = variable +
  da_coords :: "(string \<times> variable) list"

record dataset =
  variables :: "(string \<times> variable) list"
  coord_names :: "string list"
  attrs :: "(string \<times> pyval) list"

definition data_vars :: "dataset \<Rightarrow> (string \<times> variable) list" where
  "data_vars ds = filter (\<lambda>(n, _). n \<notin> set (coord_names ds)) (variables ds)"

definition coords :: "dataset \<Rightarrow> (string \<times> variable) list" where
  "coords ds = filter (\<lambda>(n, _). n \<in> set (coord_names ds)) (variables ds)"

text \<open>The length of every dimension that some variable of the dataset has.\<close>

definition sizes :: "dataset \<Rightarrow> (string \<times> nat) list" where
  "sizes ds = concat (map (\<lambda>(n, v). dims v) (variables ds))"

text \<open>
  The table \<open>VARNAMES\<close> of \<open>GCMtools.core.const\<close> is not among the sources; it is a
  parameter \<open>c\<close> of every function that reads it, one field for each key the code uses.
\<close>

record varnames =
  c_lon :: string
  c_lat :: string
  c_Z :: string
  c_time :: string
  c_T :: string
  c_U :: string
  c_V :: string
  c_W :: string
  c_g :: string
  c_P_rot :: string
  c_P_orb :: string
  c_R_p :: string

section \<open>The passport checks\<close>

definition dquote :: string where
  "dquote = [char_of (34::nat)]"

definition basic_msg :: "pyval \<Rightarrow> string \<Rightarrow> string \<Rightarrow> piece list" where
  "basic_msg t name descr =
     [Lit (''The dataset '' @ dquote), Str t,
      Lit (dquote @ '' does '' @ ''not contain '' @ name @ descr @ '' information and ''
           @ ''therefore does not qualify as a basic GCM dataset.'')]"

text \<open>
  The loop over \<open>to_be_checked_coords\<close>. The arguments of \<open>write_status\<close> are evaluated
  before the call, so \<open>dataset.attrs['tag']\<close> raises \<open>KeyError\<close> when the dataset carries no
  tag; the log is then as it was.
\<close>

fun check_coords ::
  "dataset \<Rightarrow> string list \<Rightarrow> bool \<Rightarrow> status list \<Rightarrow> (py_error + bool) \<times> status list" where
  "check_coords ds [] ok lg = (Inr ok, lg)"
| "check_coords ds (dm # rest) ok lg =
     (if dm \<in> set (map fst (coords ds)) then check_coords ds rest ok lg
      else (case map_of (attrs ds) ''tag'' of
              None \<Rightarrow> (Inl (KeyError ''tag''), lg)
            | Some t \<Rightarrow>
                check_coords ds rest False (write_status ''E-INFO'' (basic_msg t dm '''') lg)))"

text \<open>One \<open>if name not in names:\<close> block of \<open>is_the_data_basic\<close>, run after what came before.\<close>

definition check_member ::
  "dataset \<Rightarrow> string \<Rightarrow> string list \<Rightarrow> string \<Rightarrow> (py_error + bool) \<times> status list
     \<Rightarrow> (py_error + bool) \<times> status list" where
  "check_member ds name names descr r =
     (case fst r of
        Inl e \<Rightarrow> r
      | Inr ok \<Rightarrow>
          if name \<in> set names then r
          else (case map_of (attrs ds) ''tag'' of
                  None \<Rightarrow> (Inl (KeyError ''tag''), snd r)
                | Some t \<Rightarrow>
                    (Inr False, write_status ''E-INFO'' (basic_msg t name descr) (snd r))))"

definition is_the_data_basic ::
  "varnames \<Rightarrow> dataset \<Rightarrow> status list \<Rightarrow> (py_error + bool) \<times> status list" where
  "is_the_data_basic c dataset lg =
     (let data_variables = map fst (data_vars dataset);
          data_attributes = map fst (attrs dataset);
          r = check_coords dataset [c_lon c, c_lat c, c_Z c, c_time c] True lg;
          r = check_member dataset (c_T c) data_variables '' (temperature)'' r;
          r = check_member dataset (c_U c) data_variables '' (equatorial wind)'' r;
          r = check_member dataset (c_V c) data_variables '' (polar wind)'' r;
          r = check_member dataset (c_W c) data_variables '' (vertical wind)'' r;
          r = check_member dataset (c_g c) data_attributes '' (avarage gravity)'' r;
          r = check_member dataset (c_P_rot c) data_attributes '' (rotational period)'' r;
          r = check_member dataset (c_P_orb c) data_attributes '' (orbital period)'' r;
          r = check_member dataset (c_R_p c) data_attributes '' (planet radius)'' r
      in case fst r of
           Inl e \<Rightarrow> r
         | Inr is_the_data_ok \<Rightarrow>
             (Inr True,
              if \<not> is_the_data_ok
              then write_status ''ERROR''
                     [Lit (''The data does not fulfill the ''
                           @ ''requirements for a basic dataset.'')] (snd r)
              else snd r))"

text \<open>
  One block of \<open>is_the_data_cloudy\<close>: the message is built first, then the flag is cleared.
\<close>

definition check_cloud ::
  "dataset \<Rightarrow> string \<Rightarrow> string \<Rightarrow> (py_error + bool) \<times> status list
     \<Rightarrow> (py_error + bool) \<times> status list" where
  "check_cloud ds name text r =
     (case fst r of
        Inl e \<Rightarrow> r
      | Inr ok \<Rightarrow>
          if name \<in> set (map fst (data_vars ds)) then r
          else (case map_of (attrs ds) ''tag'' of
                  None \<Rightarrow> (Inl (KeyError ''tag''), snd r)
                | Some t \<Rightarrow> (Inr False, write_status ''WARN'' [Lit text, Str t] (snd r))))"

definition is_the_data_cloudy ::
  "varnames \<Rightarrow> dataset \<Rightarrow> status list \<Rightarrow> (py_error + bool) \<times> status list" where
  "is_the_data_cloudy c dataset lg =
     (let b = is_the_data_basic c dataset lg
      in case fst b of
           Inl e \<Rightarrow> b
         | Inr _ \<Rightarrow>
             (let r = (Inr True, snd b);
                  r = check_cloud dataset ''ClAb''
                        ''ClAb (cloud abundance) is missing from the dataset '' r;
                  r = check_cloud dataset ''ClDr''
                        ''ClDr (cloud particle radius) is missing from the dataset '' r;
                  r = check_cloud dataset ''ClKs''
                        ''ClKs (cloud scattering opacity) is missing from the dataset '' r;
                  r = check_cloud dataset ''ClKa''
                        ''ClKa (cloud absorption opacity) is missing from the dataset '' r
              in r))"

text \<open>The requirements that \<open>is_the_data_basic\<close> looks for, taken together.\<close>

definition has_all_basics :: "varnames \<Rightarrow> dataset \<Rightarrow> bool" where
  "has_all_basics c ds \<longleftrightarrow>
     set [c_lon c, c_lat c, c_Z c, c_time c] \<subseteq> set (map fst (coords ds)) \<and>
     set [c_T c, c_U c, c_V c, c_W c] \<subseteq> set (map fst (data_vars ds)) \<and>
     set [c_g c, c_P_rot c, c_P_orb c, c_R_p c] \<subseteq> set (map fst (attrs ds))"

section \<open>The session and its registry\<close>

text \<open>
  Datasets are objects: the registry and the caller hold references to the same dataset, and
  \<open>attrs.update\<close> and \<open>Dataset.update\<close> change it in place. The state is the object store,
  the tag-keyed collection \<open>_models\<close>, the two configured units and the status log.
  Every operation returns its result together with the state it leaves, also when it raises.
\<close>

type_synonym ref = nat

record gcmt =
  heap :: "ref \<Rightarrow> dataset option"
  models :: "(string \<times> ref) list"
  p_unit :: string
  time_unit :: string
  status_log :: "status list"

text \<open>What a caller may pass where a dataset is expected.\<close>

datatype pyobj = DatasetRef ref | NotADataset pyval

text \<open>
  Modelled from the spec: \<open>GCMtools/GCMDatasetCollection.py\<close> is not among the sources. The
  spec describes the registry as a mapping from tag to dataset that stores or overwrites an
  entry on insert and keeps insertion order; selecting with a tag returns that dataset or
  fails if it is absent; selecting without a tag returns the single stored dataset if
  exactly one exists and fails if zero or several exist. With \<open>raise_error\<close> false the
  docstring of \<open>GCMT.get_one_model\<close> promises \<open>None\<close> in place of the failure.
\<close>

definition collection_setitem :: "string \<Rightarrow> ref \<Rightarrow> (string \<times> ref) list \<Rightarrow> (string \<times> ref) list" where
  "collection_setitem tag r ms = AList.update tag r ms"

definition collection_keys :: "(string \<times> ref) list \<Rightarrow> string list" where
  "collection_keys ms = map fst ms"

definition collection_get_one_model ::
  "(string \<times> ref) list \<Rightarrow> string option \<Rightarrow> bool \<Rightarrow> py_error + ref option" where
  "collection_get_one_model ms tag raise_error =
     (case tag of
        Some t \<Rightarrow>
          (case map_of ms t of
             Some r \<Rightarrow> Inr (Some r)
           | None \<Rightarrow> if raise_error then Inl (TagNotFound t) else Inr None)
      | None \<Rightarrow>
          (case ms of
             [(t, r)] \<Rightarrow> Inr (Some r)
           | _ \<Rightarrow> if raise_error then Inl AmbiguousSelection else Inr None))"

definition get_one_model :: "gcmt \<Rightarrow> string option \<Rightarrow> bool \<Rightarrow> py_error + ref option" where
  "get_one_model self tag raise_error = collection_get_one_model (models self) tag raise_error"

text \<open>\<open>GCMT.__getitem__\<close>. The keys of the collection are strings, so no other value is a key.\<close>

definition tag_in_keys :: "pyval \<Rightarrow> string list \<Rightarrow> bool" where
  "tag_in_keys tag ks = (case tag of PStr t \<Rightarrow> t \<in> set ks | _ \<Rightarrow> False)"

definition getitem :: "gcmt \<Rightarrow> pyval \<Rightarrow> py_error + ref option" where
  "getitem self tag =
     (if \<not> tag_in_keys tag (collection_keys (models self))
      then Inl (ValueError ''The provided tag does not exist in the collection'')
      else (case tag of
              PStr t \<Rightarrow> get_one_model self (Some t) True
            | _ \<Rightarrow> Inl (ValueError ''key needs to be a string.'')))"

text \<open>\<open>dict.get\<close> on the attribute dictionary: \<open>None\<close> when the key is absent.\<close>

definition attrs_get :: "dataset \<Rightarrow> string \<Rightarrow> pyval" where
  "attrs_get ds k = (case map_of (attrs ds) k of None \<Rightarrow> PNone | Some v \<Rightarrow> v)"

definition replace_model :: "varnames \<Rightarrow> gcmt \<Rightarrow> pyval \<Rightarrow> pyobj \<Rightarrow> (py_error + unit) \<times> gcmt" where
  "replace_model c self tag ds =
     (case tag of
        PStr t \<Rightarrow>
          (case (case ds of DatasetRef r \<Rightarrow> map_option (Pair r) (heap self r)
                          | NotADataset _ \<Rightarrow> None) of
             None \<Rightarrow>
               (Inl (ValueError ''The provided input dataset needs to be a xarray Dataset.''),
                self)
           | Some (r, d) \<Rightarrow>
               (let b = is_the_data_basic c d (status_log self);
                    self1 = self\<lparr>status_log := snd b\<rparr>
                in case fst b of
                     Inl e \<Rightarrow> (Inl e, self1)
                   | Inr ok \<Rightarrow>
                       if \<not> ok
                       then (Inl (ValueError ''The provided input dataset is not compatible.''),
                             self1)
                       else if attrs_get d ''p_unit'' \<noteq> PStr (p_unit self)
                       then (Inl (NotImplementedError
                                    ''Unit conversion is needed and not yet implemented''), self1)
                       else if attrs_get d ''time_unit'' \<noteq> PStr (time_unit self)
                       then (Inl (NotImplementedError
                                    ''Unit conversion is needed and not yet implemented''), self1)
                       else (Inr (),
                             self1\<lparr>heap := (heap self1)
                                      (r \<mapsto> d\<lparr>attrs := AList.update ''tag'' (PStr t) (attrs d)\<rparr>),
                                    models := collection_setitem t r (models self1)\<rparr>)))
      | _ \<Rightarrow> (Inl (ValueError ''The provided tag needs to be a string.''), self))"

text \<open>\<open>GCMT.__setitem__\<close> only forwards.\<close>

definition setitem :: "varnames \<Rightarrow> gcmt \<Rightarrow> pyval \<Rightarrow> pyobj \<Rightarrow> (py_error + unit) \<times> gcmt" where
  "setitem c self tag ds = replace_model c self tag ds"

section \<open>The array operations the reductions call\<close>

text \<open>
  These follow the documented behaviour of the external array library, over exact reals.
  A name is looked up among the variables of the dataset, data variables and coordinates
  alike; the name of a dimension that has no coordinate variable stands for the positions
  along that dimension. \<open>ds[key]\<close> returns what is found together with the coordinates of
  the dataset that fit its dimensions; an unknown key raises \<open>KeyError\<close>.
\<close>

definition lookup_variable :: "dataset \<Rightarrow> string \<Rightarrow> variable option" where
  "lookup_variable ds key =
     (case map_of (variables ds) key of
        Some v \<Rightarrow> Some v
      | None \<Rightarrow>
          (case map_of (sizes ds) key of
             Some n \<Rightarrow> Some \<lparr>dims = [(key, n)], vals = (\<lambda>i. real (i key))\<rparr>
           | None \<Rightarrow> None))"

definition coords_for :: "dataset \<Rightarrow> variable \<Rightarrow> (string \<times> variable) list" where
  "coords_for ds v =
     filter (\<lambda>(n, cv). set (map fst (dims cv)) \<subseteq> set (map fst (dims v))) (coords ds)"

definition as_dataarray :: "dataset \<Rightarrow> variable \<Rightarrow> dataarray" where
  "as_dataarray ds v = \<lparr>dims = dims v, vals = vals v, da_coords = coords_for ds v\<rparr>"

definition getitem_ds :: "dataset \<Rightarrow> string \<Rightarrow> py_error + dataarray" where
  "getitem_ds ds key =
     (case lookup_variable ds key of
        Some v \<Rightarrow> Inr (as_dataarray ds v)
      | None \<Rightarrow> Inl (KeyError key))"

text \<open>
  Attribute-style access \<open>ds.name\<close> looks among the variables first, then in the attribute
  dictionary, and raises \<open>AttributeError\<close> when neither has the name: a variable or a
  dimension hides an attribute of the same name.
\<close>

datatype operand = Arr dataarray | Scalar pyval

definition getattr_ds :: "dataset \<Rightarrow> string \<Rightarrow> py_error + operand" where
  "getattr_ds ds name =
     (case lookup_variable ds name of
        Some v \<Rightarrow> Inr (Arr (as_dataarray ds v))
      | None \<Rightarrow>
          (case map_of (attrs ds) name of
             Some a \<Rightarrow> Inr (Scalar a)
           | None \<Rightarrow> Inl (AttributeError name)))"

text \<open>
  Elementwise operations; a binary operation broadcasts over the union of the dimensions,
  those of the left operand first. The operands come from one dataset, where a dimension
  has one length and one coordinate, so nothing has to be aligned.
\<close>

definition da_map :: "(real \<Rightarrow> real) \<Rightarrow> dataarray \<Rightarrow> dataarray" where
  "da_map f a = a\<lparr>vals := (\<lambda>i. f (vals a i))\<rparr>"

definition da_binop :: "(real \<Rightarrow> real \<Rightarrow> real) \<Rightarrow> dataarray \<Rightarrow> dataarray \<Rightarrow> dataarray" where
  "da_binop f a b =
     \<lparr>dims = dims a @ filter (\<lambda>(n, _). n \<notin> set (map fst (dims a))) (dims b),
      vals = (\<lambda>i. f (vals a i) (vals b i)),
      da_coords = da_coords a
        @ filter (\<lambda>(n, _). n \<notin> set (map fst (da_coords a))) (da_coords b)\<rparr>"

text \<open>Arithmetic between operands: a string or \<open>None\<close> raises \<open>TypeError\<close>.\<close>

definition op_binop :: "(real \<Rightarrow> real \<Rightarrow> real) \<Rightarrow> operand \<Rightarrow> operand \<Rightarrow> py_error + operand" where
  "op_binop f x y =
     (case (x, y) of
        (Arr a, Arr b) \<Rightarrow> Inr (Arr (da_binop f a b))
      | (Arr a, Scalar (PNum q)) \<Rightarrow> Inr (Arr (da_map (\<lambda>p. f p q) a))
      | (Scalar (PNum p), Arr b) \<Rightarrow> Inr (Arr (da_map (f p) b))
      | (Scalar (PNum p), Scalar (PNum q)) \<Rightarrow> Inr (Scalar (PNum (f p q)))
      | _ \<Rightarrow> Inl TypeError)"

definition op_cos :: "operand \<Rightarrow> py_error + operand" where
  "op_cos x =
     (case x of
        Arr a \<Rightarrow> Inr (Arr (da_map cos a))
      | Scalar (PNum p) \<Rightarrow> Inr (Scalar (PNum (cos p)))
      | _ \<Rightarrow> Inl TypeError)"

text \<open>The value of a numeric operand at an index.\<close>

fun operand_at :: "operand \<Rightarrow> index \<Rightarrow> real" where
  "operand_at (Arr a) i = vals a i"
| "operand_at (Scalar (PNum p)) i = p"
| "operand_at (Scalar _) i = 0"

fun numeric :: "operand \<Rightarrow> bool" where
  "numeric (Arr a) = True"
| "numeric (Scalar (PNum p)) = True"
| "numeric (Scalar _) = False"

text \<open>
  \<open>sum(dim=names)\<close>: every named dimension must be one of the array, else \<open>ValueError\<close>;
  the named dimensions are summed out and the coordinates along them are dropped.
\<close>

fun sum_over :: "(string \<times> nat) list \<Rightarrow> (index \<Rightarrow> real) \<Rightarrow> index \<Rightarrow> real" where
  "sum_over [] f i = f i"
| "sum_over ((d, n) # rest) f i = (\<Sum>k\<leftarrow>[0..<n]. sum_over rest f (i(d := k)))"

definition da_sum :: "dataarray \<Rightarrow> string list \<Rightarrow> py_error + dataarray" where
  "da_sum a names =
     (if \<not> set names \<subseteq> set (map fst (dims a))
      then Inl (ValueError ''dimension not found in array dimensions'')
      else Inr \<lparr>dims = filter (\<lambda>(n, _). n \<notin> set names) (dims a),
                vals = sum_over (filter (\<lambda>(n, _). n \<in> set names) (dims a)) (vals a),
                da_coords = filter (\<lambda>(n, cv). set (map fst (dims cv)) \<inter> set names = {})
                              (da_coords a)\<rparr>)"

text \<open>
  \<open>cumulative_integrate(coord)\<close>: the trapezoidal rule along the dimension of a
  one-dimensional coordinate, the first entry being 0. A dimension without coordinate
  values counts positions. The shape and the coordinates stay.
\<close>

definition cumulative_trapezoid ::
  "string \<Rightarrow> (index \<Rightarrow> real) \<Rightarrow> (index \<Rightarrow> real) \<Rightarrow> index \<Rightarrow> real" where
  "cumulative_trapezoid d x y i =
     (\<Sum>m\<leftarrow>[0..<i d].
        (x (i(d := Suc m)) - x (i(d := m))) * 0.5 * (y (i(d := Suc m)) + y (i(d := m))))"

definition cumulative_integrate :: "dataarray \<Rightarrow> string \<Rightarrow> py_error + dataarray" where
  "cumulative_integrate a coord =
     (case map_of (da_coords a) coord of
        Some cv \<Rightarrow>
          (case dims cv of
             [(d, n)] \<Rightarrow>
               if d \<in> set (map fst (dims a))
               then Inr (a\<lparr>vals := cumulative_trapezoid d (vals cv) (vals a)\<rparr>)
               else Inr a
           | _ \<Rightarrow> Inl (ValueError ''Coordinate must be 1 dimensional''))
      | None \<Rightarrow>
          if coord \<in> set (map fst (dims a))
          then Inr (a\<lparr>vals := cumulative_trapezoid coord (\<lambda>i. real (i coord)) (vals a)\<rparr>)
          else Inl (ValueError ''Coordinate not found in variables or dimensions''))"

text \<open>
  \<open>Dataset.update({name: array})\<close> stores the array under the name, in place of what the
  name held; the name stays a coordinate if it was one. The coordinates the array carries
  are those of the dataset it was computed from, so they are not written again.
\<close>

definition dataset_update :: "dataset \<Rightarrow> string \<Rightarrow> dataarray \<Rightarrow> dataset" where
  "dataset_update ds name a =
     ds\<lparr>variables := AList.update name \<lparr>dims = dims a, vals = vals a\<rparr> (variables ds)\<rparr>"

section \<open>The reductions\<close>

definition log_opt :: "string \<Rightarrow> string option \<Rightarrow> status list \<Rightarrow> status list" where
  "log_opt prefix x lg =
     (case x of None \<Rightarrow> lg | Some v \<Rightarrow> write_status ''INFO'' [Lit (prefix @ v)] lg)"

definition store_result :: "gcmt \<Rightarrow> ref \<Rightarrow> dataset \<Rightarrow> string option \<Rightarrow> dataarray \<Rightarrow> gcmt" where
  "store_result self r ds var_key_out a =
     (case var_key_out of
        None \<Rightarrow> self
      | Some name \<Rightarrow> self\<lparr>heap := (heap self)(r \<mapsto> dataset_update ds name a)\<rparr>)"

text \<open>
  The array expression of \<open>m_add_horizontal_average\<close>,
  \<open>(ds[area_key] * ds[var_key]).sum(dim=[lon, lat]) / ds[area_key].sum(dim=[lon, lat])\<close>,
  in Python's order of evaluation. Dividing arrays by zero does not raise in the library
  (it yields an infinity or a not-a-number); here it yields 0, and nothing below relies on
  the quotient where the divisor is zero.
\<close>

definition horizontal_average :: "varnames \<Rightarrow> dataset \<Rightarrow> string \<Rightarrow> string \<Rightarrow> py_error + dataarray" where
  "horizontal_average c ds var_key area_key =
     (case getitem_ds ds area_key of
        Inl e \<Rightarrow> Inl e
      | Inr area \<Rightarrow>
          (case getitem_ds ds var_key of
             Inl e \<Rightarrow> Inl e
           | Inr var \<Rightarrow>
               (case da_sum (da_binop times area var) [c_lon c, c_lat c] of
                  Inl e \<Rightarrow> Inl e
                | Inr num \<Rightarrow>
                    (case da_sum area [c_lon c, c_lat c] of
                       Inl e \<Rightarrow> Inl e
                     | Inr den \<Rightarrow> Inr (da_binop divide num den)))))"

definition m_add_horizontal_average ::
  "varnames \<Rightarrow> gcmt \<Rightarrow> string \<Rightarrow> string option \<Rightarrow> string \<Rightarrow> string option
     \<Rightarrow> (py_error + dataarray) \<times> gcmt" where
  "m_add_horizontal_average c gcmt var_key var_key_out area_key tag =
     (let lg = write_status ''STAT'' [Lit ''Calculate horizontal average''] (status_log gcmt);
          lg = log_opt ''Tag: '' tag lg;
          lg = write_status ''INFO'' [Lit (''Variable to be plotted: '' @ var_key)] lg;
          lg = log_opt ''Output variable: '' var_key_out lg;
          lg = write_status ''INFO'' [Lit (''Area of grid cells: '' @ area_key)] lg;
          gcmt = gcmt\<lparr>status_log := lg\<rparr>
      in case get_one_model gcmt tag True of
           Inl e \<Rightarrow> (Inl e, gcmt)
         | Inr None \<Rightarrow> (Inl TypeError, gcmt)
         | Inr (Some r) \<Rightarrow>
             (case heap gcmt r of
                None \<Rightarrow> (Inl TypeError, gcmt)
              | Some ds \<Rightarrow>
                  (case horizontal_average c ds var_key area_key of
                     Inl e \<Rightarrow> (Inl e, gcmt)
                   | Inr avg \<Rightarrow> (Inr avg, store_result gcmt r ds var_key_out avg))))"

text \<open>\<open>GCMT.add_horizontal_average\<close> only forwards.\<close>

definition add_horizontal_average ::
  "varnames \<Rightarrow> gcmt \<Rightarrow> string \<Rightarrow> string option \<Rightarrow> string \<Rightarrow> string option
     \<Rightarrow> (py_error + dataarray) \<times> gcmt" where
  "add_horizontal_average c self var_key var_key_out area_key tag =
     m_add_horizontal_average c self var_key var_key_out area_key tag"

text \<open>Sequencing of steps that may raise: the first exception ends the computation.\<close>

definition and_then :: "py_error + 'a \<Rightarrow> ('a \<Rightarrow> py_error + 'b) \<Rightarrow> py_error + 'b" where
  "and_then m f = (case m of Inl e \<Rightarrow> Inl e | Inr x \<Rightarrow> f x)"

text \<open>
  The array expressions of \<open>m_add_meridional_overturning\<close>, in Python's order of evaluation:
  \<open>2 * np.pi * np.cos(ds.lat / 180 * np.pi) * ds.R_p / ds.g * V_integral\<close> associates to
  the left.
\<close>

definition meridional_overturning :: "dataset \<Rightarrow> string \<Rightarrow> py_error + dataarray" where
  "meridional_overturning ds v_data =
     and_then (getitem_ds ds v_data) (\<lambda>v.
     and_then (cumulative_integrate v ''Z'') (\<lambda>V_integral0.
     (let V_integral = (if attrs_get ds ''p_unit'' = PStr ''bar''
                        then da_map (\<lambda>p. p / 100000) V_integral0 else V_integral0) in
     and_then (getattr_ds ds ''lat'') (\<lambda>lat.
     and_then (op_binop divide lat (Scalar (PNum 180))) (\<lambda>x1.
     and_then (op_binop times x1 (Scalar (PNum pi))) (\<lambda>x2.
     and_then (op_cos x2) (\<lambda>x3.
     and_then (op_binop times (Scalar (PNum (2 * pi))) x3) (\<lambda>x4.
     and_then (getattr_ds ds ''R_p'') (\<lambda>R_p.
     and_then (op_binop times x4 R_p) (\<lambda>x5.
     and_then (getattr_ds ds ''g'') (\<lambda>g.
     and_then (op_binop divide x5 g) (\<lambda>x6.
     and_then (op_binop times x6 (Arr V_integral)) (\<lambda>psi.
     (case psi of Arr a \<Rightarrow> Inr a | Scalar _ \<Rightarrow> Inl TypeError))))))))))))))"

text \<open>
  The argument \<open>ds\<close> is the dataset object itself; \<open>None\<close> stands for Python's \<open>None\<close>, which
  cannot be subscripted.
\<close>

definition m_add_meridional_overturning ::
  "gcmt \<Rightarrow> ref option \<Rightarrow> string \<Rightarrow> string option \<Rightarrow> string option
     \<Rightarrow> (py_error + dataarray) \<times> gcmt" where
  "m_add_meridional_overturning self ds v_data var_key_out tag =
     (let lg = write_status ''STAT'' [Lit ''Calculate meridional overturning streamfunction'']
                 (status_log self);
          lg = log_opt ''Tag: '' tag lg;
          lg = log_opt ''Output variable: '' var_key_out lg;
          self = self\<lparr>status_log := lg\<rparr>
      in case (case ds of None \<Rightarrow> None | Some r \<Rightarrow> map_option (Pair r) (heap self r)) of
           None \<Rightarrow> (Inl TypeError, self)
         | Some (r, d) \<Rightarrow>
             (case meridional_overturning d v_data of
                Inl e \<Rightarrow> (Inl e, self)
              | Inr psi \<Rightarrow> (Inr psi, store_result self r d var_key_out psi)))"

text \<open>\<open>GCMT.add_meridional_overturning\<close> resolves the dataset, then calls the reduction.\<close>

definition add_meridional_overturning ::
  "gcmt \<Rightarrow> string \<Rightarrow> string option \<Rightarrow> string option \<Rightarrow> (py_error + dataarray) \<times> gcmt" where
  "add_meridional_overturning self v_data var_key_out tag =
     (case get_one_model self tag True of
        Inl e \<Rightarrow> (Inl e, self)
      | Inr ds \<Rightarrow> m_add_meridional_overturning self ds v_data var_key_out tag)"

section \<open>Concrete inputs\<close>

text \<open>
  A table of variable names, a session, and three datasets: one with nothing in it, one
  with units only, and one on a grid of two longitudes, one latitude, two levels and one
  time that has every basic requirement and no tag yet.
\<close>

definition example_names :: varnames where
  "example_names =
     \<lparr>c_lon = ''lon'', c_lat = ''lat'', c_Z = ''Z'', c_time = ''time'',
      c_T = ''T'', c_U = ''U'', c_V = ''V'', c_W = ''W'',
      c_g = ''g'', c_P_rot = ''P_rot'', c_P_orb = ''P_orb'', c_R_p = ''R_p''\<rparr>"

definition empty_dataset :: dataset where
  "empty_dataset = \<lparr>variables = [], coord_names = [], attrs = []\<rparr>"

definition units_only_dataset :: dataset where
  "units_only_dataset =
     \<lparr>variables = [], coord_names = [],
      attrs = [(''p_unit'', PStr ''Pa''), (''time_unit'', PStr ''day'')]\<rparr>"

definition grid4 :: "(string \<times> nat) list" where
  "grid4 = [(''time'', 1), (''Z'', 2), (''lat'', 1), (''lon'', 2)]"

definition grid_dataset :: dataset where
  "grid_dataset =
     \<lparr>variables =
        [(''T'', \<lparr>dims = grid4, vals = (\<lambda>i. 3)\<rparr>),
         (''U'', \<lparr>dims = grid4, vals = (\<lambda>i. 0)\<rparr>),
         (''V'', \<lparr>dims = grid4, vals = (\<lambda>i. real (i ''Z'') + 1)\<rparr>),
         (''W'', \<lparr>dims = grid4, vals = (\<lambda>i. 0)\<rparr>),
         (''area_c'', \<lparr>dims = [(''lat'', 1), (''lon'', 2)], vals = (\<lambda>i. real (i ''lon'') + 1)\<rparr>),
         (''lon'', \<lparr>dims = [(''lon'', 2)], vals = (\<lambda>i. 180 * real (i ''lon''))\<rparr>),
         (''lat'', \<lparr>dims = [(''lat'', 1)], vals = (\<lambda>i. 0)\<rparr>),
         (''Z'', \<lparr>dims = [(''Z'', 2)], vals = (\<lambda>i. 10 * real (i ''Z''))\<rparr>),
         (''time'', \<lparr>dims = [(''time'', 1)], vals = (\<lambda>i. 0)\<rparr>)],
      coord_names = [''lon'', ''lat'', ''Z'', ''time''],
      attrs =
        [(''g'', PNum 4), (''P_rot'', PNum 1), (''P_orb'', PNum 1), (''R_p'', PNum 2),
         (''p_unit'', PStr ''bar''), (''time_unit'', PStr ''day'')]\<rparr>"

definition session_with :: "dataset \<Rightarrow> gcmt" where
  "session_with ds =
     \<lparr>heap = [0 \<mapsto> ds], models = [], p_unit = ''bar'', time_unit = ''day'', status_log = []\<rparr>"



definition session_of :: "(string \<times> ref) list \<Rightarrow> gcmt" where
  "session_of ms =
     \<lparr>heap = [0 \<mapsto> grid_dataset, 1 \<mapsto> grid_dataset], models = ms, p_unit = ''bar'',
      time_unit = ''day'', status_log = []\<rparr>"

section \<open>Properties of the passport checks\<close>

lemma check_coords_untagged:
  "map_of (attrs ds) ''tag'' = None \<Longrightarrow>
   check_coords ds xs ok lg =
     (if set xs \<subseteq> set (map fst (coords ds)) then (Inr ok, lg) else (Inl (KeyError ''tag''), lg))"
  by (induction xs arbitrary: ok lg) auto

lemma check_member_untagged:
  "map_of (attrs ds) ''tag'' = None \<Longrightarrow>
   check_member ds name names descr (Inr ok, lg) =
     (if name \<in> set names then (Inr ok, lg) else (Inl (KeyError ''tag''), lg))"
  by (simp add: check_member_def)

lemma check_member_error:
  "check_member ds name names descr (Inl e, lg) = (Inl e, lg)"
  by (simp add: check_member_def)

text \<open>Without a tag the check returns exactly when nothing is missing, and logs nothing.\<close>

lemma is_the_data_basic_untagged:
  assumes "map_of (attrs ds) ''tag'' = None"
  shows "is_the_data_basic c ds lg =
     (if has_all_basics c ds then (Inr True, lg) else (Inl (KeyError ''tag''), lg))"
  using assms
  by (simp add: is_the_data_basic_def Let_def check_coords_untagged check_member_untagged
        check_member_error has_all_basics_def)

lemma check_coords_tagged:
  "map_of (attrs ds) ''tag'' = Some t \<Longrightarrow> \<exists>ok' lg'. check_coords ds xs ok lg = (Inr ok', lg')"
  by (induction xs arbitrary: ok lg) auto

lemma check_member_tagged:
  "map_of (attrs ds) ''tag'' = Some t \<Longrightarrow>
   \<exists>ok' lg'. check_member ds name names descr (Inr ok, lg) = (Inr ok', lg')"
  by (cases "name \<in> set names") (auto simp add: check_member_def)

text \<open>With a tag the check returns \<open>True\<close> whatever is missing.\<close>

lemma is_the_data_basic_tagged:
  assumes "map_of (attrs ds) ''tag'' = Some t"
  shows "fst (is_the_data_basic c ds lg) = Inr True"
proof -
  note cm = check_member_tagged [OF assms]
  obtain o0 l0 where
    r0: "check_coords ds [c_lon c, c_lat c, c_Z c, c_time c] True lg = (Inr o0, l0)"
    using check_coords_tagged [OF assms] by blast
  obtain o1 l1 where r1: "check_member ds (c_T c) (map fst (data_vars ds))
      '' (temperature)'' (Inr o0, l0) = (Inr o1, l1)"
    using cm by blast
  obtain o2 l2 where r2: "check_member ds (c_U c) (map fst (data_vars ds))
      '' (equatorial wind)'' (Inr o1, l1) = (Inr o2, l2)"
    using cm by blast
  obtain o3 l3 where r3: "check_member ds (c_V c) (map fst (data_vars ds))
      '' (polar wind)'' (Inr o2, l2) = (Inr o3, l3)"
    using cm by blast
  obtain o4 l4 where r4: "check_member ds (c_W c) (map fst (data_vars ds))
      '' (vertical wind)'' (Inr o3, l3) = (Inr o4, l4)"
    using cm by blast
  obtain o5 l5 where r5: "check_member ds (c_g c) (map fst (attrs ds))
      '' (avarage gravity)'' (Inr o4, l4) = (Inr o5, l5)"
    using cm by blast
  obtain o6 l6 where r6: "check_member ds (c_P_rot c) (map fst (attrs ds))
      '' (rotational period)'' (Inr o5, l5) = (Inr o6, l6)"
    using cm by blast
  obtain o7 l7 where r7: "check_member ds (c_P_orb c) (map fst (attrs ds))
      '' (orbital period)'' (Inr o6, l6) = (Inr o7, l7)"
    using cm by blast
  obtain o8 l8 where r8: "check_member ds (c_R_p c) (map fst (attrs ds))
      '' (planet radius)'' (Inr o7, l7) = (Inr o8, l8)"
    using cm by blast
  show ?thesis
    by (simp add: is_the_data_basic_def Let_def r0 r1 r2 r3 r4 r5 r6 r7 r8
          del: check_coords.simps)
qed

text \<open>The check never answers \<open>False\<close>: it answers \<open>True\<close> or raises.\<close>

lemma is_the_data_basic_never_False:
  "fst (is_the_data_basic c ds lg) \<noteq> Inr False"
proof (cases "map_of (attrs ds) ''tag''")
  case None
  then show ?thesis by (simp add: is_the_data_basic_untagged)
next
  case (Some t)
  then show ?thesis by (simp add: is_the_data_basic_tagged)
qed

lemma untagged_iff: "map_of (attrs ds) ''tag'' = None \<longleftrightarrow> ''tag'' \<notin> set (map fst (attrs ds))"
  by (simp add: map_of_eq_None_iff)

lemma grid_names:
  "map fst (data_vars grid_dataset) = [''T'', ''U'', ''V'', ''W'', ''area_c'']"
  "map fst (coords grid_dataset) = [''lon'', ''lat'', ''Z'', ''time'']"
  "map fst (attrs grid_dataset) = [''g'', ''P_rot'', ''P_orb'', ''R_p'', ''p_unit'', ''time_unit'']"
  by (simp_all add: data_vars_def coords_def grid_dataset_def)

lemma has_all_basics_grid: "has_all_basics example_names grid_dataset"
  by (simp add: has_all_basics_def example_names_def grid_names)

lemma grid_untagged: "map_of (attrs grid_dataset) ''tag'' = None"
  by (simp add: grid_dataset_def)

lemma is_the_data_basic_grid:
  "is_the_data_basic example_names grid_dataset lg = (Inr True, lg)"
  by (simp add: is_the_data_basic_untagged grid_untagged has_all_basics_grid)

lemma is_the_data_basic_result:
  "fst (is_the_data_basic c ds lg) = Inr True \<or>
   fst (is_the_data_basic c ds lg) = Inl (KeyError ''tag'')"
proof (cases "map_of (attrs ds) ''tag''")
  case None
  then show ?thesis by (simp add: is_the_data_basic_untagged)
next
  case (Some t)
  then show ?thesis by (simp add: is_the_data_basic_tagged)
qed

text \<open>
  Claim C10. The basic validator is not total: on every dataset that has no \<open>tag\<close> attribute
  and lacks at least one required coordinate, field or attribute it raises \<open>KeyError\<close>
  for \<open>tag\<close> and logs nothing; \<open>_replace_model\<close>, which validates before it stamps the
  tag, fails with the same error and leaves the session as it was.
\<close>

theorem is_the_data_basic_raises_untagged_incomplete:
  assumes "''tag'' \<notin> set (map fst (attrs ds))" and "\<not> has_all_basics c ds"
  shows "is_the_data_basic c ds lg = (Inl (KeyError ''tag''), lg) \<and>
         (heap self r = Some ds \<longrightarrow>
            replace_model c self (PStr t) (DatasetRef r) = (Inl (KeyError ''tag''), self))"
proof -
  from assms(1) have u: "map_of (attrs ds) ''tag'' = None"
    by (simp add: untagged_iff)
  have b: "is_the_data_basic c ds lg' = (Inl (KeyError ''tag''), lg')" for lg'
    using assms(2) by (simp add: is_the_data_basic_untagged [OF u])
  show ?thesis
    by (simp add: b replace_model_def)
qed

theorem is_the_data_basic_raises_witness:
  "''tag'' \<notin> set (map fst (attrs units_only_dataset)) \<and>
   \<not> has_all_basics example_names units_only_dataset \<and>
   is_the_data_basic example_names units_only_dataset [] = (Inl (KeyError ''tag''), []) \<and>
   replace_model example_names (session_with units_only_dataset) (PStr ''run1'') (DatasetRef 0)
     = (Inl (KeyError ''tag''), session_with units_only_dataset)"
proof -
  have h1: "''tag'' \<notin> set (map fst (attrs units_only_dataset))"
    by (simp add: units_only_dataset_def)
  have h2: "\<not> has_all_basics example_names units_only_dataset"
    by (simp add: has_all_basics_def units_only_dataset_def data_vars_def coords_def)
  have h3: "heap (session_with units_only_dataset) 0 = Some units_only_dataset"
    by (simp add: session_with_def)
  show ?thesis
    using h1 h2 h3
      is_the_data_basic_raises_untagged_incomplete [OF h1 h2,
        of "[]" "session_with units_only_dataset" 0 "''run1''"]
    by simp
qed

text \<open>
  Claim C1. The basic validator is said to return \<open>True\<close> for every dataset, whatever is
  missing, so that the schema check never blocks an insertion. On the dataset that holds
  nothing and has no tag it raises \<open>KeyError\<close> while it builds its first message, and the
  insertion of that dataset fails with this error.
\<close>

theorem is_the_data_basic_empty_dataset:
  "is_the_data_basic example_names empty_dataset [] = (Inl (KeyError ''tag''), []) \<and>
   replace_model example_names (session_with empty_dataset) (PStr ''run1'') (DatasetRef 0)
     = (Inl (KeyError ''tag''), session_with empty_dataset)"
proof -
  have u: "map_of (attrs empty_dataset) ''tag'' = None"
    by (simp add: empty_dataset_def)
  have n: "\<not> has_all_basics example_names empty_dataset"
    by (simp add: has_all_basics_def empty_dataset_def data_vars_def coords_def)
  have b: "is_the_data_basic example_names empty_dataset [] = (Inl (KeyError ''tag''), [])"
    using n by (simp add: is_the_data_basic_untagged [OF u])
  show ?thesis
    by (simp add: b replace_model_def session_with_def)
qed

text \<open>
  What does hold of the claim: the branch of \<open>_replace_model\<close> that reports an
  incompatible dataset is never taken.
\<close>

lemma replace_model_never_incompatible:
  "fst (replace_model c self tag ds)
     \<noteq> Inl (ValueError ''The provided input dataset is not compatible.'')"
proof (cases tag)
  case (PStr t)
  show ?thesis
  proof (cases "case ds of DatasetRef r \<Rightarrow> map_option (Pair r) (heap self r)
                          | NotADataset _ \<Rightarrow> None")
    case None
    then show ?thesis using PStr by (simp add: replace_model_def)
  next
    case (Some p)
    obtain r d where p: "p = (r, d)" by (cases p)
    obtain b lg where bl: "is_the_data_basic c d (status_log self) = (b, lg)"
      by (cases "is_the_data_basic c d (status_log self)")
    have nf: "b = Inr True \<or> b = Inl (KeyError ''tag'')"
      using is_the_data_basic_result [of c d "status_log self"] bl by simp
    show ?thesis
      using PStr Some p bl nf
      by (auto simp add: replace_model_def Let_def)
  qed
qed (simp_all add: replace_model_def)

section \<open>Properties of the cloud check\<close>

text \<open>
  Claim C9. The cloud validator is said to return \<open>False\<close> when one of the four cloud
  fields is missing. The grid dataset has every basic requirement, no cloud field and no
  tag: the basic check passes, and the cloud check raises \<open>KeyError\<close> while it builds the
  warning for \<open>ClAb\<close>.
\<close>

theorem is_the_data_cloudy_untagged_grid:
  "is_the_data_cloudy example_names grid_dataset [] = (Inl (KeyError ''tag''), [])"
proof -
  have v: "''ClAb'' \<notin> set (map fst (data_vars grid_dataset))"
    by (simp add: grid_names)
  show ?thesis
    using v
    by (simp add: is_the_data_cloudy_def is_the_data_basic_grid Let_def check_cloud_def
          grid_untagged del: set_map)
qed

lemma check_cloud_tagged:
  "map_of (attrs ds) ''tag'' = Some t \<Longrightarrow>
   \<exists>lg'. check_cloud ds name text (Inr ok, lg) =
            (Inr (ok \<and> name \<in> set (map fst (data_vars ds))), lg')"
  by (cases "name \<in> set (map fst (data_vars ds))") (auto simp add: check_cloud_def)

text \<open>On a dataset that carries a tag the cloud check does answer as the claim says.\<close>

lemma is_the_data_cloudy_tagged:
  assumes "map_of (attrs ds) ''tag'' = Some t"
  shows "fst (is_the_data_cloudy c ds lg) =
           Inr (set [''ClAb'', ''ClDr'', ''ClKs'', ''ClKa''] \<subseteq> set (map fst (data_vars ds)))"
proof -
  obtain lg0 where b: "is_the_data_basic c ds lg = (Inr True, lg0)"
    using is_the_data_basic_tagged [OF assms, of c lg]
    by (cases "is_the_data_basic c ds lg") auto
  note cc = check_cloud_tagged [OF assms]
  obtain l1 where r1: "check_cloud ds ''ClAb''
      ''ClAb (cloud abundance) is missing from the dataset '' (Inr True, lg0)
      = (Inr (True \<and> ''ClAb'' \<in> set (map fst (data_vars ds))), l1)"
    using cc by blast
  obtain l2 where r2: "check_cloud ds ''ClDr''
      ''ClDr (cloud particle radius) is missing from the dataset ''
      (Inr (True \<and> ''ClAb'' \<in> set (map fst (data_vars ds))), l1)
      = (Inr ((True \<and> ''ClAb'' \<in> set (map fst (data_vars ds)))
              \<and> ''ClDr'' \<in> set (map fst (data_vars ds))), l2)"
    using cc by blast
  obtain l3 where r3: "check_cloud ds ''ClKs''
      ''ClKs (cloud scattering opacity) is missing from the dataset ''
      (Inr ((True \<and> ''ClAb'' \<in> set (map fst (data_vars ds)))
              \<and> ''ClDr'' \<in> set (map fst (data_vars ds))), l2)
      = (Inr (((True \<and> ''ClAb'' \<in> set (map fst (data_vars ds)))
              \<and> ''ClDr'' \<in> set (map fst (data_vars ds)))
              \<and> ''ClKs'' \<in> set (map fst (data_vars ds))), l3)"
    using cc by blast
  obtain l4 where r4: "check_cloud ds ''ClKa''
      ''ClKa (cloud absorption opacity) is missing from the dataset ''
      (Inr (((True \<and> ''ClAb'' \<in> set (map fst (data_vars ds)))
              \<and> ''ClDr'' \<in> set (map fst (data_vars ds)))
              \<and> ''ClKs'' \<in> set (map fst (data_vars ds))), l3)
      = (Inr ((((True \<and> ''ClAb'' \<in> set (map fst (data_vars ds)))
              \<and> ''ClDr'' \<in> set (map fst (data_vars ds)))
              \<and> ''ClKs'' \<in> set (map fst (data_vars ds)))
              \<and> ''ClKa'' \<in> set (map fst (data_vars ds))), l4)"
    using cc by blast
  show ?thesis
    unfolding is_the_data_cloudy_def Let_def b fst_conv snd_conv sum.case r1 r2 r3 r4
    by auto
qed

section \<open>Properties of the registry\<close>

lemma key_in_update: "t \<in> set (map fst (AList.update t r ms))"
  by (simp add: AList.update_keys)

text \<open>
  Claim C5. For every tag that is not a string and every dataset argument, the insertion
  fails at its first check, and the session (the mapping, the datasets, the log) is
  exactly as before.
\<close>

theorem replace_model_non_string_tag:
  assumes "\<forall>t. tag \<noteq> PStr t"
  shows "replace_model c self tag ds =
           (Inl (ValueError ''The provided tag needs to be a string.''), self)"
  using assms by (cases tag) (simp_all add: replace_model_def)

theorem replace_model_non_string_tag_witness:
  "(\<forall>t. PNum 5 \<noteq> PStr t) \<and>
   replace_model example_names (session_with grid_dataset) (PNum 5) (DatasetRef 0) =
     (Inl (ValueError ''The provided tag needs to be a string.''), session_with grid_dataset)"
proof -
  have h: "\<forall>t. PNum 5 \<noteq> PStr t" by simp
  show ?thesis
    using h replace_model_non_string_tag [OF h, of example_names "session_with grid_dataset"
        "DatasetRef 0"]
    by simp
qed

text \<open>
  Claim C3. Selecting without a tag, with \<open>raise_error\<close> true, fails when the registry holds
  no dataset or at least two, and returns the sole stored dataset when it holds exactly
  one.
\<close>

theorem get_one_model_without_tag:
  "(length (models self) = 0 \<or> 2 \<le> length (models self)
      \<longrightarrow> get_one_model self None True = Inl AmbiguousSelection) \<and>
   (length (models self) = 1
      \<longrightarrow> get_one_model self None True = Inr (Some (snd (hd (models self)))))"
  by (auto simp: get_one_model_def collection_get_one_model_def split: list.splits)

theorem get_one_model_without_tag_witness:
  "get_one_model (session_of []) None True = Inl AmbiguousSelection \<and>
   get_one_model (session_of [(''a'', 0), (''b'', 1)]) None True = Inl AmbiguousSelection \<and>
   get_one_model (session_of [(''a'', 0)]) None True = Inr (Some 0)"
  using get_one_model_without_tag [of "session_of []"]
    get_one_model_without_tag [of "session_of [(''a'', 0), (''b'', 1)]"]
    get_one_model_without_tag [of "session_of [(''a'', 0)]"]
  by (simp add: session_of_def)

text \<open>
  Claim C2. For every string tag \<open>t\<close> and every dataset \<open>d\<close> that passes the schema check and
  whose \<open>p_unit\<close> and \<open>time_unit\<close> attributes equal the configured units, inserting \<open>d\<close>
  under \<open>t\<close> succeeds, and selecting \<open>t\<close> afterwards returns the very object that was
  inserted: its variables and coordinates are those of \<open>d\<close>, its attributes are those of
  \<open>d\<close> except that \<open>tag\<close> is now \<open>t\<close>.
\<close>

theorem setitem_then_getitem:
  assumes "heap self r = Some d"
    and "fst (is_the_data_basic c d (status_log self)) = Inr True"
    and "attrs_get d ''p_unit'' = PStr (p_unit self)"
    and "attrs_get d ''time_unit'' = PStr (time_unit self)"
  shows "\<exists>self' d'. setitem c self (PStr t) (DatasetRef r) = (Inr (), self') \<and>
           getitem self' (PStr t) = Inr (Some r) \<and>
           heap self' r = Some d' \<and>
           attrs_get d' ''tag'' = PStr t \<and>
           variables d' = variables d \<and> coord_names d' = coord_names d \<and>
           (\<forall>k. k \<noteq> ''tag'' \<longrightarrow> map_of (attrs d') k = map_of (attrs d) k)"
  using assms
  by (simp add: setitem_def replace_model_def Let_def getitem_def tag_in_keys_def
        collection_keys_def collection_setitem_def get_one_model_def
        collection_get_one_model_def AList.update_conv' key_in_update attrs_get_def
        del: set_map)

theorem setitem_then_getitem_witness:
  "\<exists>self' d'. setitem example_names (session_with grid_dataset) (PStr ''run1'') (DatasetRef 0)
             = (Inr (), self') \<and>
           getitem self' (PStr ''run1'') = Inr (Some 0) \<and>
           heap self' 0 = Some d' \<and>
           attrs_get d' ''tag'' = PStr ''run1'' \<and>
           variables d' = variables grid_dataset \<and> coord_names d' = coord_names grid_dataset \<and>
           map_of (attrs d') ''g'' = Some (PNum 4)"
proof -
  have h1: "heap (session_with grid_dataset) 0 = Some grid_dataset"
    by (simp add: session_with_def)
  have h2: "fst (is_the_data_basic example_names grid_dataset
                  (status_log (session_with grid_dataset))) = Inr True"
    by (simp add: is_the_data_basic_grid)
  have h3: "attrs_get grid_dataset ''p_unit'' = PStr (p_unit (session_with grid_dataset))"
    by (simp add: attrs_get_def grid_dataset_def session_with_def)
  have h4: "attrs_get grid_dataset ''time_unit'' = PStr (time_unit (session_with grid_dataset))"
    by (simp add: attrs_get_def grid_dataset_def session_with_def)
  have g: "map_of (attrs grid_dataset) ''g'' = Some (PNum 4)"
    by (simp add: grid_dataset_def)
  from setitem_then_getitem [OF h1 h2 h3 h4, of "''run1''"] obtain self' d' where
    "setitem example_names (session_with grid_dataset) (PStr ''run1'') (DatasetRef 0)
       = (Inr (), self')"
    "getitem self' (PStr ''run1'') = Inr (Some 0)" "heap self' 0 = Some d'"
    "attrs_get d' ''tag'' = PStr ''run1''" "variables d' = variables grid_dataset"
    "coord_names d' = coord_names grid_dataset"
    "\<forall>k. k \<noteq> ''tag'' \<longrightarrow> map_of (attrs d') k = map_of (attrs grid_dataset) k"
    by blast
  then show ?thesis using g by auto
qed

text \<open>
  Claim C4. A dataset whose unit attributes differ from the configured units is said to
  be refused with \<open>NotImplementedError\<close>. The dataset that holds only units, in pascals
  where the session is configured in bars, has no tag and lacks every basic requirement:
  its insertion under a string tag fails in the validator with \<open>KeyError\<close>, before the
  units are compared.
\<close>

theorem replace_model_units_only_dataset:
  "attrs_get units_only_dataset ''p_unit'' \<noteq> PStr (p_unit (session_with units_only_dataset)) \<and>
   fst (replace_model example_names (session_with units_only_dataset) (PStr ''run1'')
          (DatasetRef 0)) = Inl (KeyError ''tag'')"
proof -
  have u: "map_of (attrs units_only_dataset) ''tag'' = None"
    by (simp add: units_only_dataset_def)
  have n: "\<not> has_all_basics example_names units_only_dataset"
    by (simp add: has_all_basics_def units_only_dataset_def data_vars_def coords_def)
  have b: "is_the_data_basic example_names units_only_dataset [] = (Inl (KeyError ''tag''), [])"
    using n by (simp add: is_the_data_basic_untagged [OF u])
  have m: "attrs_get units_only_dataset ''p_unit'' \<noteq> PStr ''bar''"
    by (simp add: attrs_get_def units_only_dataset_def)
  show ?thesis
    using m by (simp add: b replace_model_def session_with_def)
qed

text \<open>
  Where the validator returns, the claim holds: a unit mismatch is refused with
  \<open>NotImplementedError\<close>. And whatever the failure, the datasets and the mapping stay.
\<close>

lemma replace_model_unit_mismatch:
  assumes "heap self r = Some d"
    and "fst (is_the_data_basic c d (status_log self)) = Inr True"
    and "attrs_get d ''p_unit'' \<noteq> PStr (p_unit self)
         \<or> attrs_get d ''time_unit'' \<noteq> PStr (time_unit self)"
  shows "fst (replace_model c self (PStr t) (DatasetRef r))
           = Inl (NotImplementedError ''Unit conversion is needed and not yet implemented'') \<and>
         heap (snd (replace_model c self (PStr t) (DatasetRef r))) = heap self \<and>
         models (snd (replace_model c self (PStr t) (DatasetRef r))) = models self"
  using assms by (auto simp add: replace_model_def Let_def)

lemma replace_model_failure_keeps_registry:
  assumes "fst (replace_model c self tag ds) = Inl e"
  shows "heap (snd (replace_model c self tag ds)) = heap self \<and>
         models (snd (replace_model c self tag ds)) = models self"
  using assms
  by (auto simp add: replace_model_def Let_def split: pyval.splits option.splits sum.splits
        if_splits pyobj.splits)

section \<open>The grid dataset evaluated\<close>

lemma grid_lookup_V:
  "getitem_ds grid_dataset ''V'' =
     Inr (as_dataarray grid_dataset \<lparr>dims = grid4, vals = (\<lambda>i. real (i ''Z'') + 1)\<rparr>)"
  by (simp add: getitem_ds_def lookup_variable_def grid_dataset_def)

lemma grid_lookup_T:
  "getitem_ds grid_dataset ''T'' =
     Inr (as_dataarray grid_dataset \<lparr>dims = grid4, vals = (\<lambda>i. 3)\<rparr>)"
  by (simp add: getitem_ds_def lookup_variable_def grid_dataset_def)

lemma grid_lookup_area:
  "getitem_ds grid_dataset ''area_c'' =
     Inr (as_dataarray grid_dataset
            \<lparr>dims = [(''lat'', 1), (''lon'', 2)], vals = (\<lambda>i. real (i ''lon'') + 1)\<rparr>)"
  by (simp add: getitem_ds_def lookup_variable_def grid_dataset_def)

lemma grid_coords:
  "coords grid_dataset =
     [(''lon'', \<lparr>dims = [(''lon'', 2)], vals = (\<lambda>i. 180 * real (i ''lon''))\<rparr>),
      (''lat'', \<lparr>dims = [(''lat'', 1)], vals = (\<lambda>i. 0)\<rparr>),
      (''Z'', \<lparr>dims = [(''Z'', 2)], vals = (\<lambda>i. 10 * real (i ''Z''))\<rparr>),
      (''time'', \<lparr>dims = [(''time'', 1)], vals = (\<lambda>i. 0)\<rparr>)]"
  by (simp add: coords_def grid_dataset_def)

lemma grid_Z_coord:
  "map_of (da_coords (as_dataarray grid_dataset \<lparr>dims = grid4, vals = f\<rparr>)) ''Z'' =
     Some \<lparr>dims = [(''Z'', 2)], vals = (\<lambda>i. 10 * real (i ''Z''))\<rparr>"
  by (simp add: as_dataarray_def coords_for_def grid_coords grid4_def)

lemma grid_integral:
  "cumulative_integrate
     (as_dataarray grid_dataset \<lparr>dims = grid4, vals = (\<lambda>i. real (i ''Z'') + 1)\<rparr>) ''Z'' =
   Inr ((as_dataarray grid_dataset \<lparr>dims = grid4, vals = (\<lambda>i. real (i ''Z'') + 1)\<rparr>)
          \<lparr>vals := cumulative_trapezoid ''Z'' (\<lambda>i. 10 * real (i ''Z''))
                     (\<lambda>i. real (i ''Z'') + 1)\<rparr>)"
  by (simp add: cumulative_integrate_def grid_Z_coord) (simp add: as_dataarray_def grid4_def)

lemma grid_lat:
  "getattr_ds grid_dataset ''lat'' =
     Inr (Arr (as_dataarray grid_dataset \<lparr>dims = [(''lat'', 1)], vals = (\<lambda>i. 0)\<rparr>))"
  by (simp add: getattr_ds_def lookup_variable_def grid_dataset_def)

lemma grid_R_p: "getattr_ds grid_dataset ''R_p'' = Inr (Scalar (PNum 2))"
  by (simp add: getattr_ds_def lookup_variable_def sizes_def grid_dataset_def grid4_def)

lemma grid_g: "getattr_ds grid_dataset ''g'' = Inr (Scalar (PNum 4))"
  by (simp add: getattr_ds_def lookup_variable_def sizes_def grid_dataset_def grid4_def)













section \<open>Properties of the horizontal average\<close>

lemma sum_over_scale: "sum_over ds (\<lambda>i. f i * k) i = sum_over ds f i * k"
proof (induction ds arbitrary: i)
  case Nil
  then show ?case by simp
next
  case (Cons p ds)
  obtain d n where p: "p = (d, n)" by (cases p)
  have "sum_over (p # ds) (\<lambda>i. f i * k) i
          = (\<Sum>j\<leftarrow>[0..<n]. sum_over ds (\<lambda>i. f i * k) (i(d := j)))"
    by (simp only: p sum_over.simps)
  also have "\<dots> = (\<Sum>j\<leftarrow>[0..<n]. sum_over ds f (i(d := j)) * k)"
    by (simp only: Cons.IH)
  also have "\<dots> = (\<Sum>j\<leftarrow>[0..<n]. sum_over ds f (i(d := j))) * k"
    by (rule sum_list_mult_const)
  also have "\<dots> = sum_over (p # ds) f i * k"
    by (simp only: p sum_over.simps)
  finally show ?case .
qed

lemma named_dims_binop:
  assumes "set names \<subseteq> set (map fst (dims a))"
  shows "filter (\<lambda>(n, _). n \<in> set names) (dims (da_binop f a b)) =
         filter (\<lambda>(n, _). n \<in> set names) (dims a)"
  using assms by (auto simp add: da_binop_def filter_empty_conv)

lemma da_sum_Inr:
  assumes "set names \<subseteq> set (map fst (dims a))"
  shows "\<exists>s. da_sum a names = Inr s \<and>
           vals s = sum_over (filter (\<lambda>(n, _). n \<in> set names) (dims a)) (vals a) \<and>
           dims s = filter (\<lambda>(n, _). n \<notin> set names) (dims a)"
  using assms by (simp add: da_sum_def del: set_map)

lemma unnamed_dims: "set (map fst (filter (\<lambda>(n, _). n \<notin> set names) xs)) \<inter> set names = {}"
  by auto

lemma horizontal_average_uniform_values:
  assumes "getitem_ds ds var_key = Inr fld" and "\<forall>i. vals fld i = k"
    and "getitem_ds ds area_key = Inr area"
    and "set [c_lon c, c_lat c] \<subseteq> set (map fst (dims area))"
    and "\<forall>i. sum_over (filter (\<lambda>(n, _). n \<in> set [c_lon c, c_lat c]) (dims area)) (vals area) i \<noteq> 0"
  shows "\<exists>avg. horizontal_average c ds var_key area_key = Inr avg \<and> (\<forall>i. vals avg i = k) \<and>
           set (map fst (dims avg)) \<inter> set [c_lon c, c_lat c] = {}"
proof -
  let ?names = "[c_lon c, c_lat c]"
  let ?named = "filter (\<lambda>(n, _). n \<in> set ?names) (dims area)"
  have sub: "set ?names \<subseteq> set (map fst (dims (da_binop times area fld)))"
    using assms(4) by (auto simp add: da_binop_def)
  have nd: "filter (\<lambda>(n, _). n \<in> set ?names) (dims (da_binop times area fld)) = ?named"
    by (rule named_dims_binop [OF assms(4)])
  have pv: "vals (da_binop times area fld) = (\<lambda>i. vals area i * k)"
    using assms(2) by (simp add: da_binop_def)
  obtain num where num: "da_sum (da_binop times area fld) ?names = Inr num"
    and numv: "vals num = sum_over ?named (\<lambda>i. vals area i * k)"
    and numd: "dims num = filter (\<lambda>(n, _). n \<notin> set ?names) (dims (da_binop times area fld))"
    using da_sum_Inr [OF sub] unfolding nd pv by blast
  obtain den where den: "da_sum area ?names = Inr den"
    and denv: "vals den = sum_over ?named (vals area)"
    and dend: "dims den = filter (\<lambda>(n, _). n \<notin> set ?names) (dims area)"
    using da_sum_Inr [OF assms(4)] by blast
  have v: "vals (da_binop divide num den) i = k" for i
    using assms(5) by (simp add: da_binop_def numv denv sum_over_scale)
  have "set (map fst (dims num)) \<inter> set ?names = {}" "set (map fst (dims den)) \<inter> set ?names = {}"
    unfolding numd dend by (rule unnamed_dims)+
  then have d: "set (map fst (dims (da_binop divide num den))) \<inter> set ?names = {}"
    by (auto simp add: da_binop_def)
  have "horizontal_average c ds var_key area_key = Inr (da_binop divide num den)"
    by (simp add: horizontal_average_def assms(1,3) num den del: set_map)
  then show ?thesis
    using v d by blast
qed

text \<open>
  Claim C7. When the named field equals a constant \<open>k\<close> at every index and the area weights,
  summed over longitude and latitude, are not zero, the horizontal average returns an array
  that equals \<open>k\<close> at every index and has neither the longitude nor the latitude dimension,
  whatever the weights are and whether or not an output name is given. The arithmetic is
  that of the real numbers.
\<close>

theorem horizontal_average_uniform:
  assumes "get_one_model gcmt tag True = Inr (Some r)" and "heap gcmt r = Some ds"
    and "getitem_ds ds var_key = Inr fld" and "\<forall>i. vals fld i = k"
    and "getitem_ds ds area_key = Inr area"
    and "set [c_lon c, c_lat c] \<subseteq> set (map fst (dims area))"
    and "\<forall>i. sum_over (filter (\<lambda>(n, _). n \<in> set [c_lon c, c_lat c]) (dims area)) (vals area) i \<noteq> 0"
  shows "\<exists>avg gcmt'. m_add_horizontal_average c gcmt var_key var_key_out area_key tag
                        = (Inr avg, gcmt') \<and>
           (\<forall>i. vals avg i = k) \<and>
           set (map fst (dims avg)) \<inter> set [c_lon c, c_lat c] = {}"
proof -
  obtain avg where a: "horizontal_average c ds var_key area_key = Inr avg"
    and v: "\<forall>i. vals avg i = k"
    and d: "set (map fst (dims avg)) \<inter> set [c_lon c, c_lat c] = {}"
    using horizontal_average_uniform_values [OF assms(3-7)] by blast
  have g: "get_one_model (gcmt\<lparr>status_log := lg\<rparr>) tag True = Inr (Some r)" for lg
    using assms(1) by (simp add: get_one_model_def)
  have "m_add_horizontal_average c gcmt var_key var_key_out area_key tag
          = (Inr avg, store_result (gcmt\<lparr>status_log :=
               write_status ''INFO'' [Lit (''Area of grid cells: '' @ area_key)]
                (log_opt ''Output variable: '' var_key_out
                  (write_status ''INFO'' [Lit (''Variable to be plotted: '' @ var_key)]
                    (log_opt ''Tag: '' tag
                      (write_status ''STAT'' [Lit ''Calculate horizontal average'']
                        (status_log gcmt)))))\<rparr>) r ds var_key_out avg)"
    by (simp add: m_add_horizontal_average_def Let_def g assms(2) a)
  then show ?thesis using v d by blast
qed

theorem horizontal_average_uniform_witness:
  "\<exists>avg gcmt'. m_add_horizontal_average example_names (session_of [(''a'', 0)]) ''T'' None
                  ''area_c'' None = (Inr avg, gcmt') \<and>
      (\<forall>i. vals avg i = 3) \<and>
      set (map fst (dims avg)) \<inter> set [''lon'', ''lat''] = {}"
proof -
  let ?fld = "as_dataarray grid_dataset \<lparr>dims = grid4, vals = (\<lambda>i. 3)\<rparr>"
  let ?area = "as_dataarray grid_dataset
      \<lparr>dims = [(''lat'', 1), (''lon'', 2)], vals = (\<lambda>i. real (i ''lon'') + 1)\<rparr>"
  have h1: "get_one_model (session_of [(''a'', 0)]) None True = Inr (Some 0)"
    by (simp add: get_one_model_def collection_get_one_model_def session_of_def)
  have h2: "heap (session_of [(''a'', 0)]) 0 = Some grid_dataset"
    by (simp add: session_of_def)
  have h4: "\<forall>i. vals ?fld i = 3"
    by (simp add: as_dataarray_def)
  have h6: "set [c_lon example_names, c_lat example_names] \<subseteq> set (map fst (dims ?area))"
    by (simp add: example_names_def as_dataarray_def)
  have h7: "\<forall>i. sum_over (filter (\<lambda>(n, _). n \<in> set [c_lon example_names, c_lat example_names])
                   (dims ?area)) (vals ?area) i \<noteq> 0"
    by (simp add: example_names_def as_dataarray_def numeral_2_eq_2)
  show ?thesis
    using horizontal_average_uniform [OF h1 h2 grid_lookup_T h4 grid_lookup_area h6 h7, of None]
    by (simp add: example_names_def)
qed

section \<open>Properties of the meridional overturning\<close>


lemma op_binop_Inr:
  assumes "op_binop f x y = Inr z"
  shows "numeric x \<and> numeric y \<and> numeric z \<and>
         (\<forall>i. operand_at z i = f (operand_at x i) (operand_at y i))"
proof (cases x)
  case (Arr a)
  show ?thesis
  proof (cases y)
    case (Arr b)
    with \<open>x = Arr a\<close> assms show ?thesis
      by (auto simp add: op_binop_def da_binop_def)
  next
    case (Scalar q)
    with \<open>x = Arr a\<close> assms show ?thesis
      by (cases q) (auto simp add: op_binop_def da_map_def)
  qed
next
  case (Scalar p)
  show ?thesis
  proof (cases y)
    case (Arr b)
    with Scalar assms show ?thesis
      by (cases p) (auto simp add: op_binop_def da_map_def)
  next
    case (Scalar q)
    with \<open>x = Scalar p\<close> assms show ?thesis
      by (cases p; cases q) (auto simp add: op_binop_def)
  qed
qed

lemma op_cos_Inr:
  assumes "op_cos x = Inr z"
  shows "numeric x \<and> numeric z \<and> (\<forall>i. operand_at z i = cos (operand_at x i))"
proof (cases x)
  case (Arr a)
  with assms show ?thesis by (auto simp add: op_cos_def da_map_def)
next
  case (Scalar p)
  with assms show ?thesis by (cases p) (auto simp add: op_cos_def)
qed


text \<open>A variable of the dataset hides an attribute of the same name.\<close>

lemma getattr_ds_hidden:
  assumes "map_of (variables ds) name = Some v"
  shows "getattr_ds ds name = Inr (Arr (as_dataarray ds v))"
  using assms by (simp add: getattr_ds_def lookup_variable_def)



lemma op_binop_numeric:
  assumes "numeric x" and "numeric y"
  shows "\<exists>z. op_binop f x y = Inr z"
proof (cases x)
  case (Arr a)
  show ?thesis
  proof (cases y)
    case (Arr b)
    with \<open>x = Arr a\<close> show ?thesis by (simp add: op_binop_def)
  next
    case (Scalar q)
    with \<open>x = Arr a\<close> assms(2) show ?thesis by (cases q) (simp_all add: op_binop_def)
  qed
next
  case (Scalar p)
  show ?thesis
  proof (cases y)
    case (Arr b)
    with Scalar assms(1) show ?thesis by (cases p) (simp_all add: op_binop_def)
  next
    case (Scalar q)
    with \<open>x = Scalar p\<close> assms show ?thesis by (cases p; cases q) (simp_all add: op_binop_def)
  qed
qed

lemma op_binop_Arr_right:
  assumes "op_binop f x (Arr b) = Inr z"
  shows "\<exists>a. z = Arr a"
proof (cases x)
  case (Arr a)
  with assms show ?thesis by (auto simp add: op_binop_def)
next
  case (Scalar p)
  with assms show ?thesis by (cases p) (auto simp add: op_binop_def)
qed

lemma op_cos_numeric:
  assumes "numeric x"
  shows "\<exists>z. op_cos x = Inr z"
proof (cases x)
  case (Arr a)
  then show ?thesis by (simp add: op_cos_def)
next
  case (Scalar p)
  with assms show ?thesis by (cases p) (simp_all add: op_cos_def)
qed

lemma meridional_overturning_returns:
  assumes "getitem_ds ds v_data = Inr v" and "cumulative_integrate v ''Z'' = Inr V_integral"
    and "getattr_ds ds ''lat'' = Inr lat" and "getattr_ds ds ''R_p'' = Inr R_p"
    and "getattr_ds ds ''g'' = Inr g"
    and "numeric lat" and "numeric R_p" and "numeric g"
  shows "\<exists>psi. meridional_overturning ds v_data = Inr psi"
proof -
  let ?V = "if attrs_get ds ''p_unit'' = PStr ''bar''
            then da_map (\<lambda>p. p / 100000) V_integral else V_integral"
  have n180: "numeric (Scalar (PNum 180))" and npi: "numeric (Scalar (PNum pi))"
    and n2pi: "numeric (Scalar (PNum (2 * pi)))" and nV: "numeric (Arr ?V)"
    by simp_all
  obtain x1 where x1: "op_binop divide lat (Scalar (PNum 180)) = Inr x1"
    using op_binop_numeric [OF assms(6) n180] by blast
  obtain x2 where x2: "op_binop times x1 (Scalar (PNum pi)) = Inr x2"
    using op_binop_numeric [OF _ npi] op_binop_Inr [OF x1] by blast
  obtain x3 where x3: "op_cos x2 = Inr x3"
    using op_cos_numeric op_binop_Inr [OF x2] by blast
  obtain x4 where x4: "op_binop times (Scalar (PNum (2 * pi))) x3 = Inr x4"
    using op_binop_numeric [OF n2pi] op_cos_Inr [OF x3] by blast
  obtain x5 where x5: "op_binop times x4 R_p = Inr x5"
    using op_binop_numeric [OF _ assms(7)] op_binop_Inr [OF x4] by blast
  obtain x6 where x6: "op_binop divide x5 g = Inr x6"
    using op_binop_numeric [OF _ assms(8)] op_binop_Inr [OF x5] by blast
  obtain z where z: "op_binop times x6 (Arr ?V) = Inr z"
    using op_binop_numeric [OF _ nV] op_binop_Inr [OF x6] by blast
  obtain psi where psi: "z = Arr psi"
    using op_binop_Arr_right [OF z] by blast
  show ?thesis
    by (simp add: meridional_overturning_def and_then_def Let_def assms(1-5) x1 x2 x3 x4 x5 x6
          z [unfolded psi])
qed

lemma m_add_meridional_overturning_result:
  "m_add_meridional_overturning self (Some r) v_data var_key_out tag = (res, self') \<Longrightarrow>
   heap self r = Some ds \<Longrightarrow>
   res = meridional_overturning ds v_data \<and>
   models self' = models self \<and>
   heap self' = (case (res, var_key_out) of
                   (Inr psi, Some name) \<Rightarrow> (heap self)(r \<mapsto> dataset_update ds name psi)
                 | _ \<Rightarrow> heap self)"
  by (auto simp add: m_add_meridional_overturning_def Let_def store_result_def
        split: sum.splits option.splits)

lemma m_add_meridional_overturning_no_dataset:
  "heap self r = None \<Longrightarrow>
   fst (m_add_meridional_overturning self (Some r) v_data var_key_out tag) = Inl TypeError"
  by (simp add: m_add_meridional_overturning_def Let_def)





section \<open>What the reductions leave unchanged\<close>

lemma update_keeps_others:
  "filter (\<lambda>(n, _). n \<noteq> k) (AList.update k v al) = filter (\<lambda>(n, _). n \<noteq> k) al"
  by (induction al) auto

lemma dataset_update_frame:
  "attrs (dataset_update d name a) = attrs d \<and>
   coord_names (dataset_update d name a) = coord_names d \<and>
   map_of (variables (dataset_update d name a)) name = Some \<lparr>dims = dims a, vals = vals a\<rparr> \<and>
   filter (\<lambda>(n, _). n \<noteq> name) (variables (dataset_update d name a))
     = filter (\<lambda>(n, _). n \<noteq> name) (variables d)"
  by (simp add: dataset_update_def update_keeps_others AList.update_conv')

lemma m_add_horizontal_average_keeps:
  "models (snd (m_add_horizontal_average c gcmt var_key var_key_out area_key tag)) = models gcmt \<and>
   (var_key_out = None \<or> isl (fst (m_add_horizontal_average c gcmt var_key var_key_out area_key tag))
      \<longrightarrow> heap (snd (m_add_horizontal_average c gcmt var_key var_key_out area_key tag))
            = heap gcmt)"
  by (auto simp add: m_add_horizontal_average_def Let_def store_result_def
        split: sum.splits option.splits)

lemma m_add_horizontal_average_stores:
  assumes "m_add_horizontal_average c gcmt var_key (Some name) area_key tag = (Inr avg, gcmt')"
  shows "\<exists>r d. get_one_model gcmt tag True = Inr (Some r) \<and> heap gcmt r = Some d \<and>
           heap gcmt' = (heap gcmt)(r \<mapsto> dataset_update d name avg)"
  using assms
  by (auto simp add: m_add_horizontal_average_def Let_def store_result_def get_one_model_def
        split: sum.splits option.splits)

lemma m_add_meridional_overturning_keeps:
  "models (snd (m_add_meridional_overturning self ds v_data var_key_out tag)) = models self \<and>
   (var_key_out = None \<or> isl (fst (m_add_meridional_overturning self ds v_data var_key_out tag))
      \<longrightarrow> heap (snd (m_add_meridional_overturning self ds v_data var_key_out tag))
            = heap self)"
  by (auto simp add: m_add_meridional_overturning_def Let_def store_result_def
        split: sum.splits option.splits)

lemma m_add_meridional_overturning_stores:
  assumes "m_add_meridional_overturning self (Some r) v_data (Some name) tag = (Inr psi, self')"
  shows "\<exists>d. heap self r = Some d \<and> heap self' = (heap self)(r \<mapsto> dataset_update d name psi)"
  using assms
  by (auto simp add: m_add_meridional_overturning_def Let_def store_result_def
        split: sum.splits option.splits)

text \<open>
  Claim C8. Without an output name neither reduction changes any dataset or the mapping.
  With an output name, a reduction that returns stores its result in the target dataset
  under that name and changes nothing else: the other datasets, the mapping, the
  attributes, the coordinate names and every variable of another name stay as they were.
\<close>

theorem reductions_frame:
  "heap (snd (m_add_horizontal_average c gcmt var_key None area_key tag)) = heap gcmt \<and>
   models (snd (m_add_horizontal_average c gcmt var_key None area_key tag)) = models gcmt \<and>
   heap (snd (m_add_meridional_overturning self ds v_data None tag')) = heap self \<and>
   models (snd (m_add_meridional_overturning self ds v_data None tag')) = models self \<and>
   (m_add_horizontal_average c gcmt var_key (Some name) area_key tag = (Inr avg, gcmt') \<longrightarrow>
      models gcmt' = models gcmt \<and>
      (\<exists>r d. get_one_model gcmt tag True = Inr (Some r) \<and> heap gcmt r = Some d \<and>
             heap gcmt' = (heap gcmt)(r \<mapsto> dataset_update d name avg))) \<and>
   (m_add_meridional_overturning self (Some r) v_data (Some name) tag' = (Inr psi, self') \<longrightarrow>
      models self' = models self \<and>
      (\<exists>d. heap self r = Some d \<and> heap self' = (heap self)(r \<mapsto> dataset_update d name psi))) \<and>
   attrs (dataset_update d0 name a) = attrs d0 \<and>
   coord_names (dataset_update d0 name a) = coord_names d0 \<and>
   map_of (variables (dataset_update d0 name a)) name = Some \<lparr>dims = dims a, vals = vals a\<rparr> \<and>
   filter (\<lambda>(n, _). n \<noteq> name) (variables (dataset_update d0 name a))
     = filter (\<lambda>(n, _). n \<noteq> name) (variables d0)"
proof -
  have 1: "heap (snd (m_add_horizontal_average c gcmt var_key None area_key tag)) = heap gcmt"
    "models (snd (m_add_horizontal_average c gcmt var_key None area_key tag)) = models gcmt"
    using m_add_horizontal_average_keeps [of c gcmt var_key None area_key tag] by simp_all
  have 2: "heap (snd (m_add_meridional_overturning self ds v_data None tag')) = heap self"
    "models (snd (m_add_meridional_overturning self ds v_data None tag')) = models self"
    using m_add_meridional_overturning_keeps [of self ds v_data None tag'] by simp_all
  have 3: "models gcmt' = models gcmt \<and>
      (\<exists>r d. get_one_model gcmt tag True = Inr (Some r) \<and> heap gcmt r = Some d \<and>
             heap gcmt' = (heap gcmt)(r \<mapsto> dataset_update d name avg))"
    if "m_add_horizontal_average c gcmt var_key (Some name) area_key tag = (Inr avg, gcmt')"
    using m_add_horizontal_average_stores [OF that]
      m_add_horizontal_average_keeps [of c gcmt var_key "Some name" area_key tag] that
    by simp
  have 4: "models self' = models self \<and>
      (\<exists>d. heap self r = Some d \<and> heap self' = (heap self)(r \<mapsto> dataset_update d name psi))"
    if "m_add_meridional_overturning self (Some r) v_data (Some name) tag' = (Inr psi, self')"
    using m_add_meridional_overturning_stores [OF that]
      m_add_meridional_overturning_keeps [of self "Some r" v_data "Some name" tag'] that
    by simp
  show ?thesis
    using 1 2 3 4 dataset_update_frame [of d0 name a] by blast
qed

theorem reductions_frame_witness:
  "\<exists>avg gcmt' psi self'.
     m_add_horizontal_average example_names (session_of [(''a'', 0)]) ''T'' (Some ''out'')
       ''area_c'' None = (Inr avg, gcmt') \<and>
     models gcmt' = [(''a'', 0)] \<and>
     heap gcmt' 0 = Some (dataset_update grid_dataset ''out'' avg) \<and>
     heap gcmt' 1 = Some grid_dataset \<and>
     m_add_meridional_overturning (session_with grid_dataset) (Some 0) ''V'' (Some ''out'') None
       = (Inr psi, self') \<and>
     heap self' 0 = Some (dataset_update grid_dataset ''out'' psi) \<and>
     attrs (dataset_update grid_dataset ''out'' psi) = attrs grid_dataset \<and>
     coord_names (dataset_update grid_dataset ''out'' psi) = coord_names grid_dataset \<and>
     map_of (variables (dataset_update grid_dataset ''out'' psi)) ''out''
       = Some \<lparr>dims = dims psi, vals = vals psi\<rparr> \<and>
     filter (\<lambda>(n, _). n \<noteq> ''out'') (variables (dataset_update grid_dataset ''out'' psi))
       = filter (\<lambda>(n, _). n \<noteq> ''out'') (variables grid_dataset) \<and>
     heap (snd (m_add_horizontal_average example_names (session_of [(''a'', 0)]) ''T'' None
                  ''area_c'' None)) = heap (session_of [(''a'', 0)]) \<and>
     heap (snd (m_add_meridional_overturning (session_with grid_dataset) (Some 0) ''V'' None
                  None)) = heap (session_with grid_dataset)"
proof -
  let ?g = "session_of [(''a'', 0)]" and ?s = "session_with grid_dataset"
  let ?fld = "as_dataarray grid_dataset \<lparr>dims = grid4, vals = (\<lambda>i. 3)\<rparr>"
  let ?area = "as_dataarray grid_dataset
      \<lparr>dims = [(''lat'', 1), (''lon'', 2)], vals = (\<lambda>i. real (i ''lon'') + 1)\<rparr>"
  have h1: "get_one_model (?g\<lparr>status_log := lg\<rparr>) None True = Inr (Some 0)" for lg
    by (simp add: get_one_model_def collection_get_one_model_def session_of_def)
  have h2: "heap ?g 0 = Some grid_dataset" "heap ?g 1 = Some grid_dataset"
    "models ?g = [(''a'', 0)]"
    by (simp_all add: session_of_def)
  have h3: "heap ?s 0 = Some grid_dataset"
    by (simp add: session_with_def)
  have h4: "\<forall>i. vals ?fld i = 3"
    by (simp add: as_dataarray_def)
  have h6: "set [c_lon example_names, c_lat example_names] \<subseteq> set (map fst (dims ?area))"
    by (simp add: example_names_def as_dataarray_def)
  have h7: "\<forall>i. sum_over (filter (\<lambda>(n, _). n \<in> set [c_lon example_names, c_lat example_names])
                   (dims ?area)) (vals ?area) i \<noteq> 0"
    by (simp add: example_names_def as_dataarray_def numeral_2_eq_2)
  obtain avg where avg: "horizontal_average example_names grid_dataset ''T'' ''area_c'' = Inr avg"
    using horizontal_average_uniform_values [OF grid_lookup_T h4 grid_lookup_area h6 h7]
    by blast
  obtain gcmt' where run1: "m_add_horizontal_average example_names ?g ''T'' (Some ''out'')
      ''area_c'' None = (Inr avg, gcmt')"
    by (simp add: m_add_horizontal_average_def Let_def h1 h2 avg)
  obtain psi where psi: "meridional_overturning grid_dataset ''V'' = Inr psi"
    using meridional_overturning_returns [OF grid_lookup_V grid_integral grid_lat grid_R_p grid_g]
    by auto
  obtain self' where run2: "m_add_meridional_overturning ?s (Some 0) ''V'' (Some ''out'') None
      = (Inr psi, self')"
    by (simp add: m_add_meridional_overturning_def Let_def h3 psi)
  note f = reductions_frame [where c = example_names and gcmt = ?g and var_key = "''T''"
      and area_key = "''area_c''" and tag = None and self = ?s and ds = "Some 0"
      and v_data = "''V''" and tag' = None and name = "''out''" and avg = avg
      and gcmt' = gcmt' and r = 0 and psi = psi and self' = self' and ?d0.0 = grid_dataset
      and a = psi]
  from f run1 h1 [of "status_log ?g"] h2 have a1: "models gcmt' = [(''a'', 0)]"
    "heap gcmt' 0 = Some (dataset_update grid_dataset ''out'' avg)"
    "heap gcmt' 1 = Some grid_dataset"
    by (auto simp add: get_one_model_def)
  from f run2 h3 have a2: "heap self' 0 = Some (dataset_update grid_dataset ''out'' psi)"
    by auto
  show ?thesis
    using f run1 run2 a1 a2 by blast
qed

end
